theory Spec2Isabelle
  imports Main "HOL-Library.Signed_Division"
begin

section \<open>Data model\<close>

text \<open>
  The index is the B+ tree of \<^verbatim>\<open>src/index/b_plus_tree.cpp\<close> over the node pages of
  \<^verbatim>\<open>src/page/b_plus_tree_leaf_page.cpp\<close> and \<^verbatim>\<open>src/page/b_plus_tree_internal_page.cpp\<close>.
  The classes are templates over \<open>KeyType\<close>, \<open>ValueType\<close> and \<open>KeyComparator\<close>; the
  model is polymorphic in the key type \<open>'k\<close> and the leaf value type \<open>'v\<close>, and every
  function that receives a comparator in the source receives it here, as a function
  to \<open>int\<close> (negative, zero, positive).

  C++ \<open>int\<close> is modelled as \<open>int\<close>: sizes and slot indices stay far below the
  word size. The C++ division \<open>/\<close> on \<open>int\<close> truncates towards zero, which is
  \<open>sdiv\<close>.
\<close>

type_synonym page_id_t = int

definition INVALID_PAGE_ID :: page_id_t where
  "INVALID_PAGE_ID = - 1"

datatype IndexPageType = INVALID_INDEX_PAGE | LEAF_PAGE | INTERNAL_PAGE

text \<open>
  The common header of a node page (class \<open>BPlusTreePage\<close>). Its accessors
  (\<open>GetSize\<close>, \<open>SetSize\<close>, \<open>GetPageId\<close>, ...) read and write one field each; they are
  the record selectors and updates below. The members are named as in the source
  without the trailing underscore; \<open>size_\<close> is \<open>size'\<close>.
\<close>

record BPlusTreePage =
  page_type :: IndexPageType
  size' :: int
  max_size :: int
  parent_page_id :: page_id_t
  page_id :: page_id_t

text \<open>
  A leaf page adds the link to the next leaf and the slot array. The array lives in
  the page's byte buffer, so slots outside \<open>[0, size)\<close> exist and keep whatever was
  written there: the array is a total function of the slot index, and \<open>size'\<close> is a
  separate field.
\<close>

record ('k, 'v) BPlusTreeLeafPage = BPlusTreePage +
  next_page_id :: page_id_t
  leaf_array :: "int \<Rightarrow> 'k \<times> 'v"

record 'k BPlusTreeInternalPage = BPlusTreePage +
  internal_array :: "int \<Rightarrow> 'k \<times> page_id_t"

definition IsLeafPage :: "'a BPlusTreePage_scheme \<Rightarrow> bool" where
  "IsLeafPage p \<longleftrightarrow> page_type p = LEAF_PAGE"

definition IsRootPage :: "'a BPlusTreePage_scheme \<Rightarrow> bool" where
  "IsRootPage p \<longleftrightarrow> parent_page_id p = INVALID_PAGE_ID"

text \<open>
  The constants that \<open>Init\<close> computes the capacity from are declared outside the
  sources at hand, so they are parameters of the model.
\<close>

record layout =
  PAGE_SIZE :: nat
  HEADER_SIZE :: nat
  sizeof_KeyType :: nat
  sizeof_ValueType :: nat

section \<open>Leaf page\<close>

definition GetNextPageId :: "('k, 'v) BPlusTreeLeafPage \<Rightarrow> page_id_t" where
  "GetNextPageId p = next_page_id p"

text \<open>
  \<^verbatim>\<open>next_page_id_ = next_page_id_;\<close>: the member is assigned to itself; the
  parameter, here \<open>next_id\<close>, is never read.
\<close>

definition SetNextPageId :: "('k, 'v) BPlusTreeLeafPage \<Rightarrow> page_id_t \<Rightarrow> ('k, 'v) BPlusTreeLeafPage" where
  "SetNextPageId p next_id = p\<lparr>next_page_id := next_page_id p\<rparr>"

definition LeafPage_Init ::
  "'a layout_scheme \<Rightarrow> ('k, 'v) BPlusTreeLeafPage \<Rightarrow> page_id_t \<Rightarrow> page_id_t \<Rightarrow> ('k, 'v) BPlusTreeLeafPage" where
  "LeafPage_Init c p pid parent_id =
     (let p1 = p\<lparr>page_type := LEAF_PAGE\<rparr>;
          p2 = p1\<lparr>size' := 0\<rparr>;
          p3 = p2\<lparr>page_id := pid\<rparr>;
          p4 = p3\<lparr>parent_page_id := parent_id\<rparr>;
          p5 = SetNextPageId p4 INVALID_PAGE_ID
      in p5\<lparr>max_size :=
            int ((PAGE_SIZE c - HEADER_SIZE c) div (sizeof_KeyType c + sizeof_ValueType c))\<rparr>)"

definition LeafPage_KeyAt :: "('k, 'v) BPlusTreeLeafPage \<Rightarrow> int \<Rightarrow> 'k" where
  "LeafPage_KeyAt p index = fst (leaf_array p index)"

definition GetItem :: "('k, 'v) BPlusTreeLeafPage \<Rightarrow> int \<Rightarrow> 'k \<times> 'v" where
  "GetItem p index = leaf_array p index"

text \<open>\<open>KeyIndex\<close>: the \<open>for\<close> loop from slot \<open>i\<close> on; \<open>- 1\<close> when it runs out.\<close>

function KeyIndex_from ::
  "('k, 'v) BPlusTreeLeafPage \<Rightarrow> 'k \<Rightarrow> ('k \<Rightarrow> 'k \<Rightarrow> int) \<Rightarrow> int \<Rightarrow> int" where
  "KeyIndex_from p key comparator i =
     (if i < size' p
      then (if comparator (fst (leaf_array p i)) key \<ge> 0 then i
            else KeyIndex_from p key comparator (i + 1))
      else - 1)"
  by pat_completeness auto
termination
  by (relation "measure (\<lambda>(p, key, comparator, i). nat (size' p - i))") auto

declare KeyIndex_from.simps [simp del]

definition KeyIndex :: "('k, 'v) BPlusTreeLeafPage \<Rightarrow> 'k \<Rightarrow> ('k \<Rightarrow> 'k \<Rightarrow> int) \<Rightarrow> int" where
  "KeyIndex p key comparator = KeyIndex_from p key comparator 0"

text \<open>
  \<open>Insert\<close>. The first loop compares the comparator's \<open>int\<close> result with the key
  itself (\<^verbatim>\<open>== key\<close>), twice. What \<open>==\<close> between an \<open>int\<close> and a \<open>KeyType\<close> computes
  is fixed by the key class, which is declared outside the sources at hand: it is
  the parameter \<open>int_eq_key\<close>. The scan yields \<open>None\<close> for the early
  \<^verbatim>\<open>return GetSize()\<close> and \<open>Some i\<close> for the slot index at which the loop is left.
\<close>

function Insert_scan ::
  "('k, 'v) BPlusTreeLeafPage \<Rightarrow> 'k \<Rightarrow> ('k \<Rightarrow> 'k \<Rightarrow> int) \<Rightarrow> (int \<Rightarrow> 'k \<Rightarrow> bool) \<Rightarrow> int \<Rightarrow> int option" where
  "Insert_scan p key comparator int_eq_key i =
     (if i < size' p
      then (if int_eq_key (comparator (fst (GetItem p i)) key) key then None
            else if int_eq_key (comparator (fst (GetItem p i)) key) key then Some i
            else Insert_scan p key comparator int_eq_key (i + 1))
      else Some i)"
  by pat_completeness auto
termination
  by (relation "measure (\<lambda>(p, key, comparator, int_eq_key, i). nat (size' p - i))") auto

declare Insert_scan.simps [simp del]

text \<open>\<^verbatim>\<open>for (int j = GetSize() - 1; j >= i; j--) array[j + 1] = array[j];\<close>\<close>

function shift_right :: "(int \<Rightarrow> 'a) \<Rightarrow> int \<Rightarrow> int \<Rightarrow> (int \<Rightarrow> 'a)" where
  "shift_right arr j i =
     (if j \<ge> i then shift_right (arr(j + 1 := arr j)) (j - 1) i else arr)"
  by pat_completeness auto
termination
  by (relation "measure (\<lambda>(arr, j, i). nat (j - i + 1))") auto

declare shift_right.simps [simp del]

definition LeafPage_Insert ::
  "('k, 'v) BPlusTreeLeafPage \<Rightarrow> 'k \<Rightarrow> 'v \<Rightarrow> ('k \<Rightarrow> 'k \<Rightarrow> int) \<Rightarrow> (int \<Rightarrow> 'k \<Rightarrow> bool)
     \<Rightarrow> int \<times> ('k, 'v) BPlusTreeLeafPage" where
  "LeafPage_Insert p key value comparator int_eq_key =
     (case Insert_scan p key comparator int_eq_key 0 of
        None \<Rightarrow> (size' p, p)
      | Some i \<Rightarrow>
          (let arr = shift_right (leaf_array p) (size' p - 1) i;
               p1 = p\<lparr>leaf_array := arr(i := (key, value))\<rparr>;
               p2 = p1\<lparr>size' := size' p1 + 1\<rparr>
           in (size' p2, p2)))"

text \<open>
  \<open>MoveHalfTo\<close> and \<open>CopyHalfFrom\<close>. \<open>items\<close> is the sender's array; the two pages are
  different pages, so the sender's array is not changed by the copy.
\<close>

function CopyHalfFrom_loop ::
  "(int \<Rightarrow> 'a) \<Rightarrow> (int \<Rightarrow> 'a) \<Rightarrow> int \<Rightarrow> int \<Rightarrow> int \<Rightarrow> (int \<Rightarrow> 'a)" where
  "CopyHalfFrom_loop arr items sz half i =
     (if i < sz
      then CopyHalfFrom_loop (arr(i - sz + half := items i)) items sz half (i + 1)
      else arr)"
  by pat_completeness auto
termination
  by (relation "measure (\<lambda>(arr, items, sz, half, i). nat (sz - i))") auto

declare CopyHalfFrom_loop.simps [simp del]

definition LeafPage_CopyHalfFrom ::
  "('k, 'v) BPlusTreeLeafPage \<Rightarrow> (int \<Rightarrow> 'k \<times> 'v) \<Rightarrow> int \<Rightarrow> ('k, 'v) BPlusTreeLeafPage" where
  "LeafPage_CopyHalfFrom p items sz =
     (let half = sz - (sz sdiv 2);
          p1 = p\<lparr>leaf_array := CopyHalfFrom_loop (leaf_array p) items sz half (sz - half)\<rparr>
      in p1\<lparr>size' := half\<rparr>)"

definition LeafPage_MoveHalfTo ::
  "('k, 'v) BPlusTreeLeafPage \<Rightarrow> ('k, 'v) BPlusTreeLeafPage
     \<Rightarrow> ('k, 'v) BPlusTreeLeafPage \<times> ('k, 'v) BPlusTreeLeafPage" where
  "LeafPage_MoveHalfTo p recipient =
     (let recipient1 = LeafPage_CopyHalfFrom recipient (leaf_array p) (size' p)
      in (p\<lparr>size' := size' p sdiv 2\<rparr>, recipient1))"

text \<open>\<open>Lookup\<close>: \<open>None\<close> is the \<open>false\<close> result, \<open>Some v\<close> is \<open>true\<close> with \<open>value = v\<close>.\<close>

function LeafPage_Lookup_from ::
  "('k, 'v) BPlusTreeLeafPage \<Rightarrow> 'k \<Rightarrow> ('k \<Rightarrow> 'k \<Rightarrow> int) \<Rightarrow> int \<Rightarrow> 'v option" where
  "LeafPage_Lookup_from p key comparator i =
     (if i < size' p
      then (if comparator key (fst (leaf_array p i)) = 0 then Some (snd (leaf_array p i))
            else LeafPage_Lookup_from p key comparator (i + 1))
      else None)"
  by pat_completeness auto
termination
  by (relation "measure (\<lambda>(p, key, comparator, i). nat (size' p - i))") auto

declare LeafPage_Lookup_from.simps [simp del]

definition LeafPage_Lookup ::
  "('k, 'v) BPlusTreeLeafPage \<Rightarrow> 'k \<Rightarrow> ('k \<Rightarrow> 'k \<Rightarrow> int) \<Rightarrow> 'v option" where
  "LeafPage_Lookup p key comparator = LeafPage_Lookup_from p key comparator 0"

section \<open>Internal page\<close>

definition KeyAt :: "'k BPlusTreeInternalPage \<Rightarrow> int \<Rightarrow> 'k" where
  "KeyAt p index = fst (internal_array p index)"

definition ValueAt :: "'k BPlusTreeInternalPage \<Rightarrow> int \<Rightarrow> page_id_t" where
  "ValueAt p index = snd (internal_array p index)"

function ValueIndex_from :: "'k BPlusTreeInternalPage \<Rightarrow> page_id_t \<Rightarrow> int \<Rightarrow> int" where
  "ValueIndex_from p v i =
     (if i < size' p
      then (if snd (internal_array p i) = v then i else ValueIndex_from p v (i + 1))
      else - 1)"
  by pat_completeness auto
termination
  by (relation "measure (\<lambda>(p, v, i). nat (size' p - i))") auto

declare ValueIndex_from.simps [simp del]

definition ValueIndex :: "'k BPlusTreeInternalPage \<Rightarrow> page_id_t \<Rightarrow> int" where
  "ValueIndex p v = ValueIndex_from p v 0"

text \<open>\<open>Lookup\<close>: the \<open>while\<close> loop, then the two tests on the slot it stopped at.\<close>

function Lookup_while ::
  "'k BPlusTreeInternalPage \<Rightarrow> 'k \<Rightarrow> ('k \<Rightarrow> 'k \<Rightarrow> int) \<Rightarrow> int \<Rightarrow> int" where
  "Lookup_while p key comparator i =
     (if i < size' p \<and> comparator key (KeyAt p i) > 0
      then Lookup_while p key comparator (i + 1)
      else i)"
  by pat_completeness auto
termination
  by (relation "measure (\<lambda>(p, key, comparator, i). nat (size' p - i))") auto

declare Lookup_while.simps [simp del]

definition InternalPage_Lookup ::
  "'k BPlusTreeInternalPage \<Rightarrow> 'k \<Rightarrow> ('k \<Rightarrow> 'k \<Rightarrow> int) \<Rightarrow> page_id_t" where
  "InternalPage_Lookup p key comparator =
     (let i = Lookup_while p key comparator 1
      in if i = size' p then ValueAt p (size' p - 1)
         else if comparator key (KeyAt p i) < 0 then ValueAt p (i - 1)
         else ValueAt p i)"

text \<open>\<open>PopulateNewRoot\<close> writes three fields of two slots and nothing else.\<close>

definition PopulateNewRoot ::
  "'k BPlusTreeInternalPage \<Rightarrow> page_id_t \<Rightarrow> 'k \<Rightarrow> page_id_t \<Rightarrow> 'k BPlusTreeInternalPage" where
  "PopulateNewRoot p old_value new_key new_value =
     (let a0 = internal_array p;
          a1 = a0(0 := (fst (a0 0), old_value));
          a2 = a1(1 := (new_key, snd (a1 1)));
          a3 = a2(1 := (fst (a2 1), new_value))
      in p\<lparr>internal_array := a3\<rparr>)"

definition InsertNodeAfter ::
  "'k BPlusTreeInternalPage \<Rightarrow> page_id_t \<Rightarrow> 'k \<Rightarrow> page_id_t \<Rightarrow> int \<times> 'k BPlusTreeInternalPage" where
  "InsertNodeAfter p old_value new_key new_value =
     (let index = ValueIndex p old_value;
          arr = shift_right (internal_array p) (size' p - 1) (index + 1);
          p1 = p\<lparr>internal_array := arr(index + 1 := (new_key, new_value))\<rparr>;
          p2 = p1\<lparr>size' := size' p1 + 1\<rparr>
      in (size' p2, p2))"

definition InternalPage_CopyHalfFrom ::
  "'k BPlusTreeInternalPage \<Rightarrow> (int \<Rightarrow> 'k \<times> page_id_t) \<Rightarrow> int \<Rightarrow> 'k BPlusTreeInternalPage" where
  "InternalPage_CopyHalfFrom p items sz =
     (let half = sz - ((sz + 1) sdiv 2);
          p1 = p\<lparr>internal_array :=
                  CopyHalfFrom_loop (internal_array p) items sz half (sz - half)\<rparr>
      in p1\<lparr>size' := half\<rparr>)"

definition InternalPage_MoveHalfTo ::
  "'k BPlusTreeInternalPage \<Rightarrow> 'k BPlusTreeInternalPage
     \<Rightarrow> 'k BPlusTreeInternalPage \<times> 'k BPlusTreeInternalPage" where
  "InternalPage_MoveHalfTo p recipient =
     (let recipient1 = InternalPage_CopyHalfFrom recipient (internal_array p) (size' p)
      in (p\<lparr>size' := (size' p + 1) sdiv 2\<rparr>, recipient1))"

section \<open>Key comparator\<close>

text \<open>
  Modelled from the spec: the key comparator class is declared outside the sources
  at hand. Its contract is \<open>cmp(a, b)\<close> returning the sign of \<open>a - b\<close> for a total
  order on keys.
\<close>

definition comparator_contract :: "('k::linorder \<Rightarrow> 'k \<Rightarrow> int) \<Rightarrow> bool" where
  "comparator_contract cmp \<longleftrightarrow>
     (\<forall>a b. (cmp a b < 0 \<longleftrightarrow> a < b) \<and> (cmp a b = 0 \<longleftrightarrow> a = b) \<and> (0 < cmp a b \<longleftrightarrow> b < a))"

text \<open>
  Modelled from the spec: the comparator of integer keys (the test drivers build keys
  with \<open>SetFromInteger\<close>), returning \<open>- 1\<close>, \<open>0\<close> or \<open>1\<close>.
\<close>

definition GenericComparator :: "int \<Rightarrow> int \<Rightarrow> int" where
  "GenericComparator a b = (if a < b then - 1 else if b < a then 1 else 0)"

section \<open>Transaction\<close>

text \<open>
  \<^verbatim>\<open>src/include/concurrency/transaction.h\<close>. A \<open>std::shared_ptr\<close> is null or owns an
  object: an \<open>option\<close>. The page set maps page ids to page handles; the handle type
  is a parameter. Going through a null pointer stops the program, which is the
  fault value here.
\<close>

datatype fault = NullPointerFault | BadPageCast

record 'page Transaction =
  thread_id :: nat
  txn_id :: int
  page_set :: "(page_id_t \<rightharpoonup> 'page) option"

text \<open>The constructor: the two initialisers, then \<^verbatim>\<open>page_set_.reset()\<close>.\<close>

definition Transaction :: "nat \<Rightarrow> int \<Rightarrow> 'page Transaction" where
  "Transaction tid xid = \<lparr>thread_id = tid, txn_id = xid, page_set = None\<rparr>"

definition GetPageSet :: "'page Transaction \<Rightarrow> (page_id_t \<rightharpoonup> 'page) option" where
  "GetPageSet t = page_set t"

text \<open>\<open>operator*\<close> and \<open>operator->\<close> of the shared pointer, and an insertion through it.\<close>

definition shared_ptr_deref :: "'a option \<Rightarrow> fault + 'a" where
  "shared_ptr_deref ptr = (case ptr of None \<Rightarrow> Inl NullPointerFault | Some x \<Rightarrow> Inr x)"

definition page_set_insert ::
  "'page Transaction \<Rightarrow> page_id_t \<Rightarrow> 'page \<Rightarrow> fault + 'page Transaction" where
  "page_set_insert t pid pg =
     (case shared_ptr_deref (GetPageSet t) of
        Inl e \<Rightarrow> Inl e
      | Inr m \<Rightarrow> Inr (t\<lparr>page_set := Some (m(pid \<mapsto> pg))\<rparr>))"

section \<open>Buffer pool, header page and tree\<close>

text \<open>
  Modelled from the spec: the page class is outside the sources at hand. The tree
  casts the raw page it fetched to the node class it expects. A page of the pool is
  new (taken as zero-filled), a leaf or an internal node; reading a new page through
  a node class gives the zero-filled node, and reading a leaf as an internal node,
  or the reverse, is the fault \<open>BadPageCast\<close>.
\<close>

datatype ('k, 'v) Page =
    BlankPage
  | LeafPage "('k, 'v) BPlusTreeLeafPage"
  | InternalPage "'k BPlusTreeInternalPage"

definition blank_header :: BPlusTreePage where
  "blank_header =
     \<lparr>page_type = INVALID_INDEX_PAGE, size' = 0, max_size = 0, parent_page_id = 0, page_id = 0\<rparr>"

definition blank_leaf :: "('k::zero, 'v::zero) BPlusTreeLeafPage" where
  "blank_leaf =
     \<lparr>page_type = INVALID_INDEX_PAGE, size' = 0, max_size = 0, parent_page_id = 0, page_id = 0,
      next_page_id = 0, leaf_array = (\<lambda>_. (0, 0))\<rparr>"

definition blank_internal :: "('k::zero) BPlusTreeInternalPage" where
  "blank_internal =
     \<lparr>page_type = INVALID_INDEX_PAGE, size' = 0, max_size = 0, parent_page_id = 0, page_id = 0,
      internal_array = (\<lambda>_. (0, 0))\<rparr>"

definition as_tree_page :: "('k, 'v) Page \<Rightarrow> BPlusTreePage" where
  "as_tree_page pg =
     (case pg of
        BlankPage \<Rightarrow> blank_header
      | LeafPage l \<Rightarrow> BPlusTreePage.truncate l
      | InternalPage n \<Rightarrow> BPlusTreePage.truncate n)"

definition as_leaf :: "('k::zero, 'v::zero) Page \<Rightarrow> fault + ('k, 'v) BPlusTreeLeafPage" where
  "as_leaf pg =
     (case pg of
        BlankPage \<Rightarrow> Inr blank_leaf
      | LeafPage l \<Rightarrow> Inr l
      | InternalPage n \<Rightarrow> Inl BadPageCast)"

definition as_internal :: "('k::zero, 'v) Page \<Rightarrow> fault + 'k BPlusTreeInternalPage" where
  "as_internal pg =
     (case pg of
        BlankPage \<Rightarrow> Inr blank_internal
      | LeafPage l \<Rightarrow> Inl BadPageCast
      | InternalPage n \<Rightarrow> Inr n)"

text \<open>
  Modelled from the spec: the buffer pool manager is outside the sources at hand. The
  tree uses \<open>FetchPage\<close> (a page handle, or failure: a page id that the pool does not
  hold is fetched as the null pointer) and \<open>NewPage\<close> (a new page with a freshly
  allocated id). Pin counts are not modelled: the tree code never unpins a node
  page. The header page, page 0 of the pool, is a field of its own.
\<close>

record ('k, 'v) BufferPoolManager =
  pages :: "page_id_t \<rightharpoonup> ('k, 'v) Page"
  next_free_page_id :: page_id_t
  header_page :: "(string \<times> page_id_t) list"

definition FetchPage :: "('k, 'v) BufferPoolManager \<Rightarrow> page_id_t \<Rightarrow> ('k, 'v) Page option" where
  "FetchPage bpm pid = pages bpm pid"

definition NewPage :: "('k, 'v) BufferPoolManager \<Rightarrow> page_id_t \<times> ('k, 'v) BufferPoolManager" where
  "NewPage bpm =
     (next_free_page_id bpm,
      bpm\<lparr>pages := (pages bpm)(next_free_page_id bpm \<mapsto> BlankPage),
          next_free_page_id := next_free_page_id bpm + 1\<rparr>)"

text \<open>
  Modelled from the spec: the header page class is outside the sources at hand. It
  keeps the records (index name, root page id); \<open>InsertRecord\<close> appends one,
  \<open>UpdateRecord\<close> changes one in place, \<open>GetRootId\<close> reads one.
\<close>

definition InsertRecord :: "(string \<times> page_id_t) list \<Rightarrow> string \<Rightarrow> page_id_t \<Rightarrow> (string \<times> page_id_t) list" where
  "InsertRecord h name root_id = h @ [(name, root_id)]"

definition UpdateRecord :: "(string \<times> page_id_t) list \<Rightarrow> string \<Rightarrow> page_id_t \<Rightarrow> (string \<times> page_id_t) list" where
  "UpdateRecord h name root_id = map (\<lambda>(n, r). if n = name then (n, root_id) else (n, r)) h"

definition GetRootId :: "(string \<times> page_id_t) list \<Rightarrow> string \<Rightarrow> page_id_t option" where
  "GetRootId h name = map_of h name"

text \<open>
  The tree's functions pass on what the page functions take from outside the sources
  at hand: the layout constants of \<open>Init\<close> and the \<open>==\<close> of \<open>Insert\<close>, in one record.
\<close>

record 'k externals = layout +
  int_eq_key :: "int \<Rightarrow> 'k \<Rightarrow> bool"

text \<open>
  The tree object. \<open>buffer_pool_manager_\<close> is a pointer to the pool; the model keeps
  the pool in the tree's state, and \<open>write_page\<close> is a store through a page pointer.
  The \<open>Transaction *\<close> arguments of the tree's functions are never read and are left out.
\<close>

record ('k, 'v) BPlusTree =
  index_name :: string
  root_page_id :: page_id_t
  buffer_pool_manager :: "('k, 'v) BufferPoolManager"
  comparator :: "'k \<Rightarrow> 'k \<Rightarrow> int"

definition write_page :: "('k, 'v) BPlusTree \<Rightarrow> page_id_t \<Rightarrow> ('k, 'v) Page \<Rightarrow> ('k, 'v) BPlusTree" where
  "write_page t pid pg =
     t\<lparr>buffer_pool_manager :=
         (buffer_pool_manager t)\<lparr>pages := (pages (buffer_pool_manager t))(pid \<mapsto> pg)\<rparr>\<rparr>"

definition IsEmpty :: "('k, 'v) BPlusTree \<Rightarrow> bool" where
  "IsEmpty t \<longleftrightarrow> root_page_id t = INVALID_PAGE_ID"

text \<open>
  \<open>GetValueHelper\<close>: the \<open>for\<close> loop over the separators picks the child, and the
  function calls itself on it. The descent need not end (a page may name itself as
  its child), so it is a partial function: \<open>None\<close> is "does not return".
\<close>

function GetValueHelper_for ::
  "'k BPlusTreeInternalPage \<Rightarrow> 'k \<Rightarrow> ('k \<Rightarrow> 'k \<Rightarrow> int) \<Rightarrow> int \<Rightarrow> page_id_t" where
  "GetValueHelper_for currInternal key cmp i =
     (if i < size' currInternal
      then (if cmp key (KeyAt currInternal i) < 0 then ValueAt currInternal (i - 1)
            else GetValueHelper_for currInternal key cmp (i + 1))
      else ValueAt currInternal (size' currInternal - 1))"
  by pat_completeness auto
termination
  by (relation "measure (\<lambda>(p, key, cmp, i). nat (size' p - i))") auto

declare GetValueHelper_for.simps [simp del]

partial_function (option) GetValueHelper ::
  "('k::zero, 'v::zero) BPlusTree \<Rightarrow> 'k \<Rightarrow> 'v list \<Rightarrow> page_id_t \<Rightarrow> (fault + bool \<times> 'v list) option" where
  "GetValueHelper t key result pageId =
     (case FetchPage (buffer_pool_manager t) pageId of
        None \<Rightarrow> Some (Inl NullPointerFault)
      | Some currPage \<Rightarrow>
          if IsLeafPage (as_tree_page currPage)
          then (case as_leaf currPage of
                  Inl e \<Rightarrow> Some (Inl e)
                | Inr currLeaf \<Rightarrow>
                    (case LeafPage_Lookup currLeaf key (comparator t) of
                       Some v \<Rightarrow> Some (Inr (True, result @ [v]))
                     | None \<Rightarrow> Some (Inr (False, result))))
          else (case as_internal currPage of
                  Inl e \<Rightarrow> Some (Inl e)
                | Inr currInternal \<Rightarrow>
                    GetValueHelper t key result
                      (GetValueHelper_for currInternal key (comparator t) 1)))"

definition GetValue ::
  "('k::zero, 'v::zero) BPlusTree \<Rightarrow> 'k \<Rightarrow> 'v list \<Rightarrow> (fault + bool \<times> 'v list) option" where
  "GetValue t key result = GetValueHelper t key result (root_page_id t)"

text \<open>
  \<open>StartNewTree\<close>: \<open>NewPage\<close> writes the new id into \<open>root_page_id_\<close>; the header page
  is not touched.
\<close>

definition StartNewTree ::
  "'k externals \<Rightarrow> ('k::zero, 'v::zero) BPlusTree \<Rightarrow> 'k \<Rightarrow> 'v \<Rightarrow> ('k, 'v) BPlusTree" where
  "StartNewTree d t key value =
     (let (new_id, bpm1) = NewPage (buffer_pool_manager t);
          t1 = t\<lparr>root_page_id := new_id, buffer_pool_manager := bpm1\<rparr>;
          root = blank_leaf;
          root1 = LeafPage_Init d root (root_page_id t1) INVALID_PAGE_ID;
          (n, root2) = LeafPage_Insert root1 key value (comparator t1) (int_eq_key d)
      in write_page t1 new_id (LeafPage root2))"

text \<open>
  \<open>InsertIntoLeaf\<close>. In the \<open>for\<close> loop of the descent, \<^verbatim>\<open>continue\<close> goes on with the
  \<open>for\<close> loop itself, so the loop runs to its end and the assignment after it
  overwrites \<open>currId\<close> with the last child, whatever the loop chose.
\<close>

function InsertIntoLeaf_for ::
  "'k BPlusTreeInternalPage \<Rightarrow> 'k \<Rightarrow> ('k \<Rightarrow> 'k \<Rightarrow> int) \<Rightarrow> int \<Rightarrow> page_id_t \<Rightarrow> page_id_t" where
  "InsertIntoLeaf_for internalPage key cmp i currId =
     (if i < size' internalPage
      then (if cmp key (KeyAt internalPage i) < 0
            then InsertIntoLeaf_for internalPage key cmp (i + 1) (ValueAt internalPage (i - 1))
            else InsertIntoLeaf_for internalPage key cmp (i + 1) currId)
      else currId)"
  by pat_completeness auto
termination
  by (relation "measure (\<lambda>(p, key, cmp, i, currId). nat (size' p - i))") auto

declare InsertIntoLeaf_for.simps [simp del]

partial_function (option) InsertIntoLeaf_while ::
  "('k::zero, 'v::zero) BPlusTree \<Rightarrow> 'k \<Rightarrow> page_id_t \<Rightarrow> (fault + page_id_t) option" where
  "InsertIntoLeaf_while t key currId =
     (case FetchPage (buffer_pool_manager t) currId of
        None \<Rightarrow> Some (Inl NullPointerFault)
      | Some page \<Rightarrow>
          if IsLeafPage (as_tree_page page) then Some (Inr currId)
          else (case as_internal page of
                  Inl e \<Rightarrow> Some (Inl e)
                | Inr internalPage \<Rightarrow>
                    (let currId1 = InsertIntoLeaf_for internalPage key (comparator t) 1 currId;
                         currId2 = ValueAt internalPage (size' internalPage - 1)
                     in InsertIntoLeaf_while t key currId2)))"

text \<open>
  \<open>InsertIntoParent\<close> reads \<open>GetParentPageId\<close> and \<open>GetPageId\<close> of the two nodes: it
  receives their common headers. The new internal page and the new root are used as
  \<open>NewPage\<close> returns them, without \<open>Init\<close>.
\<close>

partial_function (option) InsertIntoParent ::
  "('k::zero, 'v::zero) BPlusTree \<Rightarrow> BPlusTreePage \<Rightarrow> 'k \<Rightarrow> BPlusTreePage
     \<Rightarrow> (fault + ('k, 'v) BPlusTree) option" where
  "InsertIntoParent t old_node key new_node =
     (case FetchPage (buffer_pool_manager t) (parent_page_id old_node) of
        None \<Rightarrow> Some (Inl NullPointerFault)
      | Some pg \<Rightarrow>
          (case as_internal pg of
             Inl e \<Rightarrow> Some (Inl e)
           | Inr page \<Rightarrow>
               (let (n, page1) = InsertNodeAfter page (page_id old_node) key (page_id new_node);
                    t1 = write_page t (parent_page_id old_node) (InternalPage page1)
                in if size' page1 < max_size page1 then Some (Inr t1)
                   else
                     (let (newId, bpm2) = NewPage (buffer_pool_manager t1);
                          t2 = t1\<lparr>buffer_pool_manager := bpm2\<rparr>;
                          newPage = blank_internal;
                          (page2, newPage1) = InternalPage_MoveHalfTo page1 newPage;
                          t3 = write_page t2 (parent_page_id old_node) (InternalPage page2);
                          t4 = write_page t3 newId (InternalPage newPage1)
                      in if IsRootPage page2
                         then
                           (let (rootId, bpm5) = NewPage (buffer_pool_manager t4);
                                t5 = t4\<lparr>root_page_id := rootId, buffer_pool_manager := bpm5\<rparr>;
                                newRoot = PopulateNewRoot blank_internal (page_id page2)
                                            (KeyAt newPage1 0) (ValueAt newPage1 0)
                            in Some (Inr (write_page t5 rootId (InternalPage newRoot))))
                         else InsertIntoParent t4 (BPlusTreePage.truncate page2)
                                (KeyAt newPage1 0) (BPlusTreePage.truncate newPage1)))))"

definition InsertToLeaf ::
  "'k externals \<Rightarrow> ('k::zero, 'v::zero) BPlusTree \<Rightarrow> page_id_t \<Rightarrow> 'k \<Rightarrow> 'v
     \<Rightarrow> (fault + ('k, 'v) BPlusTree) option" where
  "InsertToLeaf d t leafId key value =
     (case FetchPage (buffer_pool_manager t) leafId of
        None \<Rightarrow> Some (Inl NullPointerFault)
      | Some pg \<Rightarrow>
          (case as_leaf pg of
             Inl e \<Rightarrow> Some (Inl e)
           | Inr page \<Rightarrow>
               (let (n, page1) = LeafPage_Insert page key value (comparator t) (int_eq_key d);
                    t1 = write_page t leafId (LeafPage page1)
                in if size' page1 < max_size page1 then Some (Inr t1)
                   else
                     (let (newPageId, bpm2) = NewPage (buffer_pool_manager t1);
                          t2 = t1\<lparr>buffer_pool_manager := bpm2\<rparr>;
                          newPage = LeafPage_Init d blank_leaf newPageId (parent_page_id page1);
                          (page2, newPage1) = LeafPage_MoveHalfTo page1 newPage;
                          t3 = write_page t2 leafId (LeafPage page2);
                          t4 = write_page t3 newPageId (LeafPage newPage1)
                      in InsertIntoParent t4 (BPlusTreePage.truncate page2)
                           (LeafPage_KeyAt newPage1 0) (BPlusTreePage.truncate newPage1)))))"

definition InsertIntoLeaf ::
  "'k externals \<Rightarrow> ('k::zero, 'v::zero) BPlusTree \<Rightarrow> 'k \<Rightarrow> 'v
     \<Rightarrow> (fault + bool \<times> ('k, 'v) BPlusTree) option" where
  "InsertIntoLeaf d t key value =
     (case InsertIntoLeaf_while t key (root_page_id t) of
        None \<Rightarrow> None
      | Some (Inl e) \<Rightarrow> Some (Inl e)
      | Some (Inr currId) \<Rightarrow>
          (case FetchPage (buffer_pool_manager t) currId of
             None \<Rightarrow> Some (Inl NullPointerFault)
           | Some pg \<Rightarrow>
               (case as_leaf pg of
                  Inl e \<Rightarrow> Some (Inl e)
                | Inr curr' \<Rightarrow>
                    (case LeafPage_Lookup curr' key (comparator t) of
                       Some v \<Rightarrow> Some (Inr (False, t))
                     | None \<Rightarrow>
                         (case InsertToLeaf d t currId key value of
                            None \<Rightarrow> None
                          | Some (Inl e) \<Rightarrow> Some (Inl e)
                          | Some (Inr t1) \<Rightarrow> Some (Inr (True, t1)))))))"

definition Insert ::
  "'k externals \<Rightarrow> ('k::zero, 'v::zero) BPlusTree \<Rightarrow> 'k \<Rightarrow> 'v
     \<Rightarrow> (fault + bool \<times> ('k, 'v) BPlusTree) option" where
  "Insert d t key value =
     (if root_page_id t = INVALID_PAGE_ID
      then Some (Inr (True, StartNewTree d t key value))
      else (case InsertIntoLeaf d t key value of
              None \<Rightarrow> None
            | Some (Inl e) \<Rightarrow> Some (Inl e)
            | Some (Inr (inserted, t1)) \<Rightarrow> Some (Inr (True, t1))))"

text \<open>\<open>Remove\<close> has an empty body.\<close>

definition Remove :: "('k, 'v) BPlusTree \<Rightarrow> 'k \<Rightarrow> ('k, 'v) BPlusTree" where
  "Remove t key = t"

text \<open>\<open>UpdateRootPageId\<close> is defined in the source and called from nowhere in it.\<close>

definition UpdateRootPageId :: "('k, 'v) BPlusTree \<Rightarrow> bool \<Rightarrow> ('k, 'v) BPlusTree" where
  "UpdateRootPageId t insert_record =
     (let bpm = buffer_pool_manager t;
          header = header_page bpm;
          header1 = (if insert_record then InsertRecord header (index_name t) (root_page_id t)
                     else UpdateRecord header (index_name t) (root_page_id t))
      in t\<lparr>buffer_pool_manager := bpm\<lparr>header_page := header1\<rparr>\<rparr>)"

section \<open>Example pages and trees\<close>

text \<open>A leaf page with the keys 10, 20, 30 and an internal page with the separators 20, 40.\<close>

definition example_leaf :: "(int, int) BPlusTreeLeafPage" where
  "example_leaf =
     \<lparr>page_type = LEAF_PAGE, size' = 3, max_size = 8, parent_page_id = INVALID_PAGE_ID,
      page_id = 1, next_page_id = INVALID_PAGE_ID,
      leaf_array = (\<lambda>_. (0, 0))(0 := (10, 100), 1 := (20, 200), 2 := (30, 300))\<rparr>"

definition example_internal :: "int BPlusTreeInternalPage" where
  "example_internal =
     \<lparr>page_type = INTERNAL_PAGE, size' = 3, max_size = 8, parent_page_id = INVALID_PAGE_ID,
      page_id = 4, internal_array = (\<lambda>_. (0, 0))(0 := (0, 1), 1 := (20, 2), 2 := (40, 3))\<rparr>"

definition example_recipient :: "(int, int) BPlusTreeLeafPage" where
  "example_recipient =
     \<lparr>page_type = LEAF_PAGE, size' = 0, max_size = 8, parent_page_id = INVALID_PAGE_ID,
      page_id = 2, next_page_id = INVALID_PAGE_ID, leaf_array = (\<lambda>_. (0, 0))\<rparr>"

text \<open>
  Trees over integer keys and values: a root leaf holding key 7; the empty tree with
  an empty header page; and, with at most 4 slots to a page, an internal root with
  the separator 30 over the leaves \<open>{10, 20}\<close> and \<open>{30, 40}\<close>.
\<close>

definition one_leaf_tree :: "(int, int) BPlusTree" where
  "one_leaf_tree =
     \<lparr>index_name = ''idx'', root_page_id = 1,
      buffer_pool_manager =
        \<lparr>pages = [1 \<mapsto> LeafPage
                  \<lparr>page_type = LEAF_PAGE, size' = 1, max_size = 8,
                   parent_page_id = INVALID_PAGE_ID, page_id = 1, next_page_id = INVALID_PAGE_ID,
                   leaf_array = (\<lambda>_. (0, 0))(0 := (7, 70))\<rparr>],
         next_free_page_id = 2, header_page = [(''idx'', 1)]\<rparr>,
      comparator = GenericComparator\<rparr>"

definition empty_tree :: "(int, int) BPlusTree" where
  "empty_tree =
     \<lparr>index_name = ''idx'', root_page_id = INVALID_PAGE_ID,
      buffer_pool_manager = \<lparr>pages = Map.empty, next_free_page_id = 1, header_page = []\<rparr>,
      comparator = GenericComparator\<rparr>"

definition two_leaf_tree :: "(int, int) BPlusTree" where
  "two_leaf_tree =
     \<lparr>index_name = ''idx'', root_page_id = 3,
      buffer_pool_manager =
        \<lparr>pages =
           [1 \<mapsto> LeafPage
                  \<lparr>page_type = LEAF_PAGE, size' = 2, max_size = 4,
                   parent_page_id = 3, page_id = 1, next_page_id = 2,
                   leaf_array = (\<lambda>_. (0, 0))(0 := (10, 100), 1 := (20, 200))\<rparr>,
            2 \<mapsto> LeafPage
                  \<lparr>page_type = LEAF_PAGE, size' = 2, max_size = 4,
                   parent_page_id = 3, page_id = 2, next_page_id = INVALID_PAGE_ID,
                   leaf_array = (\<lambda>_. (0, 0))(0 := (30, 300), 1 := (40, 400))\<rparr>,
            3 \<mapsto> InternalPage
                  \<lparr>page_type = INTERNAL_PAGE, size' = 2, max_size = 4,
                   parent_page_id = INVALID_PAGE_ID, page_id = 3,
                   internal_array = (\<lambda>_. (0, 0))(0 := (0, 1), 1 := (30, 2))\<rparr>],
         next_free_page_id = 4, header_page = [(''idx'', 3)]\<rparr>,
      comparator = GenericComparator\<rparr>"

section \<open>Properties of the page operations\<close>

lemma GenericComparator_contract: "comparator_contract GenericComparator"
  by (auto simp: comparator_contract_def GenericComparator_def)

subsection \<open>Leaf \<open>KeyIndex\<close>\<close>

lemma KeyIndex_from_char:
  "(\<exists>r. i \<le> r \<and> r < size' p \<and> 0 \<le> cmp (fst (leaf_array p r)) key \<and>
        (\<forall>j. i \<le> j \<and> j < r \<longrightarrow> cmp (fst (leaf_array p j)) key < 0) \<and>
        KeyIndex_from p key cmp i = r) \<or>
   ((\<forall>j. i \<le> j \<and> j < size' p \<longrightarrow> cmp (fst (leaf_array p j)) key < 0) \<and>
    KeyIndex_from p key cmp i = - 1)"
proof (induction p key cmp i rule: KeyIndex_from.induct)
  case (1 p key cmp i)
  show ?case
  proof (cases "i < size' p")
    case False
    then show ?thesis by (simp add: KeyIndex_from.simps [of p key cmp i])
  next
    case in_range: True
    show ?thesis
    proof (cases "0 \<le> cmp (fst (leaf_array p i)) key")
      case True
      with in_range show ?thesis
        by (intro disjI1 exI [of _ i]) (simp add: KeyIndex_from.simps [of p key cmp i])
    next
      case False
      have step: "KeyIndex_from p key cmp i = KeyIndex_from p key cmp (i + 1)"
        using in_range False by (simp add: KeyIndex_from.simps [of p key cmp i])
      have below: "cmp (fst (leaf_array p j)) key < 0" if "i \<le> j" "j < i + 1" for j
      proof -
        from that have "j = i" by simp
        with False show ?thesis by simp
      qed
      from "1.IH" [OF in_range False] show ?thesis
      proof (elim disjE exE conjE)
        fix r
        assume r: "i + 1 \<le> r" "r < size' p" "0 \<le> cmp (fst (leaf_array p r)) key"
          "\<forall>j. i + 1 \<le> j \<and> j < r \<longrightarrow> cmp (fst (leaf_array p j)) key < 0"
          "KeyIndex_from p key cmp (i + 1) = r"
        have "\<forall>j. i \<le> j \<and> j < r \<longrightarrow> cmp (fst (leaf_array p j)) key < 0"
          using r(4) below by (metis not_le)
        with r step show ?thesis
          by (intro disjI1 exI [of _ r]) simp
      next
        assume n: "\<forall>j. i + 1 \<le> j \<and> j < size' p \<longrightarrow> cmp (fst (leaf_array p j)) key < 0"
          "KeyIndex_from p key cmp (i + 1) = - 1"
        have "\<forall>j. i \<le> j \<and> j < size' p \<longrightarrow> cmp (fst (leaf_array p j)) key < 0"
          using n(1) below by (metis not_le)
        with n step show ?thesis by simp
      qed
    qed
  qed
qed

text \<open>
  Claim C9, as the code has it. For every leaf page and every search key, \<open>KeyIndex\<close>
  returns the smallest slot index \<open>i\<close> in \<open>[0, size)\<close> whose key is not below the search
  key (the comparator applied to the slot's key and the search key is not negative),
  and it returns \<open>- 1\<close>, not the page's size, when no slot is such. The keys need not
  be ascending for this.
\<close>

theorem KeyIndex_smallest_or_minus_one:
  "(\<exists>i. 0 \<le> i \<and> i < size' p \<and> 0 \<le> cmp (LeafPage_KeyAt p i) key \<and>
        (\<forall>j. 0 \<le> j \<and> j < i \<longrightarrow> cmp (LeafPage_KeyAt p j) key < 0) \<and>
        KeyIndex p key cmp = i) \<or>
   ((\<forall>i. 0 \<le> i \<and> i < size' p \<longrightarrow> cmp (LeafPage_KeyAt p i) key < 0) \<and>
    KeyIndex p key cmp = - 1)"
  using KeyIndex_from_char [of 0 p cmp key]
  by (simp add: KeyIndex_def LeafPage_KeyAt_def)

theorem KeyIndex_smallest_or_minus_one_witness:
  "KeyIndex example_leaf 25 GenericComparator = 2 \<and>
   KeyIndex example_leaf 31 GenericComparator = - 1"
proof
  have keys: "LeafPage_KeyAt example_leaf 0 = 10" "LeafPage_KeyAt example_leaf 1 = 20"
    "LeafPage_KeyAt example_leaf 2 = 30" "size' example_leaf = 3"
    by (simp_all add: example_leaf_def LeafPage_KeyAt_def)
  have slot2: "\<not> GenericComparator (LeafPage_KeyAt example_leaf 2) 25 < 0"
    by (simp add: keys GenericComparator_def)
  have "\<not> (\<forall>i. 0 \<le> i \<and> i < size' example_leaf \<longrightarrow>
                 GenericComparator (LeafPage_KeyAt example_leaf i) 25 < 0)"
  proof
    assume "\<forall>i. 0 \<le> i \<and> i < size' example_leaf \<longrightarrow>
                 GenericComparator (LeafPage_KeyAt example_leaf i) 25 < 0"
    then have "0 \<le> (2::int) \<and> 2 < size' example_leaf \<longrightarrow>
                 GenericComparator (LeafPage_KeyAt example_leaf 2) 25 < 0" by (rule spec)
    with slot2 show False by (simp add: keys)
  qed
  with KeyIndex_smallest_or_minus_one [of example_leaf GenericComparator 25]
  have "\<exists>i. 0 \<le> i \<and> i < size' example_leaf \<and>
          0 \<le> GenericComparator (LeafPage_KeyAt example_leaf i) 25 \<and>
          (\<forall>j. 0 \<le> j \<and> j < i \<longrightarrow> GenericComparator (LeafPage_KeyAt example_leaf j) 25 < 0) \<and>
          KeyIndex example_leaf 25 GenericComparator = i"
    by blast
  then obtain i where i: "0 \<le> i" "i < size' example_leaf"
    "0 \<le> GenericComparator (LeafPage_KeyAt example_leaf i) 25"
    "KeyIndex example_leaf 25 GenericComparator = i"
    by blast
  from i(1,2) have "i = 0 \<or> i = 1 \<or> i = 2" unfolding keys(4) by arith
  with i(3) have "i = 2" by (auto simp: keys GenericComparator_def)
  with i(4) show "KeyIndex example_leaf 25 GenericComparator = 2" by simp
next
  have "0 \<le> i \<and> i < size' example_leaf \<longrightarrow>
          GenericComparator (LeafPage_KeyAt example_leaf i) 31 < 0" for i
  proof
    assume "0 \<le> i \<and> i < size' example_leaf"
    then have "i = 0 \<or> i = 1 \<or> i = 2" by (simp add: example_leaf_def) arith
    then show "GenericComparator (LeafPage_KeyAt example_leaf i) 31 < 0"
      by (auto simp: example_leaf_def LeafPage_KeyAt_def GenericComparator_def)
  qed
  then have none: "\<not> (\<exists>i. 0 \<le> i \<and> i < size' example_leaf \<and>
                 0 \<le> GenericComparator (LeafPage_KeyAt example_leaf i) 31 \<and>
                 (\<forall>j. 0 \<le> j \<and> j < i \<longrightarrow> GenericComparator (LeafPage_KeyAt example_leaf j) 31 < 0) \<and>
                 KeyIndex example_leaf 31 GenericComparator = i)"
    by (metis not_less)
  from KeyIndex_smallest_or_minus_one [of example_leaf GenericComparator 31] none
  show "KeyIndex example_leaf 31 GenericComparator = - 1" by blast
qed

text \<open>
  Claim C9 as stated fails where no slot qualifies: every key of the example leaf is
  below 31, and \<open>KeyIndex\<close> returns \<open>- 1\<close> where the claim says 3, the page's size.
\<close>

theorem KeyIndex_none_counterexample:
  "GenericComparator (LeafPage_KeyAt example_leaf 0) 31 < 0 \<and>
   GenericComparator (LeafPage_KeyAt example_leaf 1) 31 < 0 \<and>
   GenericComparator (LeafPage_KeyAt example_leaf 2) 31 < 0 \<and>
   size' example_leaf = 3 \<and>
   KeyIndex example_leaf 31 GenericComparator \<noteq> size' example_leaf"
  by (simp add: example_leaf_def LeafPage_KeyAt_def GenericComparator_def KeyIndex_def
      KeyIndex_from.simps)

subsection \<open>Leaf \<open>MoveHalfTo\<close>\<close>

lemma CopyHalfFrom_loop_apply:
  "CopyHalfFrom_loop arr items sz half i k =
     (if i \<le> k + sz - half \<and> k + sz - half < sz then items (k + sz - half) else arr k)"
proof (induction arr items sz half i rule: CopyHalfFrom_loop.induct)
  case (1 arr items sz half i)
  show ?case
  proof (cases "i < sz")
    case False
    then have outside: "\<not> (i \<le> k + sz - half \<and> k + sz - half < sz)" by arith
    from False have stop: "CopyHalfFrom_loop arr items sz half i = arr"
      by (simp add: CopyHalfFrom_loop.simps [of arr items sz half i])
    from outside show ?thesis unfolding stop by (rule if_not_P [symmetric])
  next
    case True
    have "CopyHalfFrom_loop arr items sz half i k =
          CopyHalfFrom_loop (arr(i - sz + half := items i)) items sz half (i + 1) k"
      using True by (simp add: CopyHalfFrom_loop.simps [of arr items sz half i])
    also have "\<dots> = (if i + 1 \<le> k + sz - half \<and> k + sz - half < sz then items (k + sz - half)
                      else (arr(i - sz + half := items i)) k)"
      by (rule "1.IH" [OF True])
    also have "\<dots> = (if i \<le> k + sz - half \<and> k + sz - half < sz then items (k + sz - half) else arr k)"
      using True by (auto simp: fun_upd_def)
    finally show ?thesis .
  qed
qed

text \<open>
  Claim C4, as the code has it. For every leaf page \<open>L\<close> of size \<open>s \<ge> 0\<close>, after
  \<open>L.MoveHalfTo(R)\<close> the sender keeps its lower \<open>\<lfloor>s/2\<rfloor>\<close> slots and the recipient holds the
  upper \<open>s - \<lfloor>s/2\<rfloor>\<close> slots from its slot 0 on: the recipient's size is the sender's
  plus \<open>s mod 2\<close>, so for odd \<open>s\<close> the recipient gets the larger half.
\<close>

theorem LeafPage_MoveHalfTo_split:
  assumes "0 \<le> size' L"
  shows "size' (fst (LeafPage_MoveHalfTo L R)) = size' L div 2 \<and>
         size' (snd (LeafPage_MoveHalfTo L R)) = size' L - size' L div 2 \<and>
         size' (snd (LeafPage_MoveHalfTo L R)) = size' (fst (LeafPage_MoveHalfTo L R)) + size' L mod 2 \<and>
         (\<forall>i. 0 \<le> i \<and> i < size' L div 2 \<longrightarrow>
              leaf_array (fst (LeafPage_MoveHalfTo L R)) i = leaf_array L i) \<and>
         (\<forall>i. 0 \<le> i \<and> i < size' L - size' L div 2 \<longrightarrow>
              leaf_array (snd (LeafPage_MoveHalfTo L R)) i = leaf_array L (size' L div 2 + i))"
proof -
  have sd: "size' L sdiv 2 = size' L div 2"
    using assms by (simp add: signed_divide_int_def sgn_if)
  have sender: "fst (LeafPage_MoveHalfTo L R) = L\<lparr>size' := size' L div 2\<rparr>"
    by (simp add: LeafPage_MoveHalfTo_def Let_def sd)
  have recipient_size: "size' (snd (LeafPage_MoveHalfTo L R)) = size' L - size' L div 2"
    by (simp add: LeafPage_MoveHalfTo_def LeafPage_CopyHalfFrom_def Let_def sd)
  have recipient_slots:
    "leaf_array (snd (LeafPage_MoveHalfTo L R)) i = leaf_array L (size' L div 2 + i)"
    if "0 \<le> i \<and> i < size' L - size' L div 2" for i
  proof -
    have "leaf_array (snd (LeafPage_MoveHalfTo L R)) i =
          CopyHalfFrom_loop (leaf_array R) (leaf_array L) (size' L)
            (size' L - size' L div 2) (size' L - (size' L - size' L div 2)) i"
      by (simp add: LeafPage_MoveHalfTo_def LeafPage_CopyHalfFrom_def Let_def sd)
    also have "\<dots> = leaf_array L (i + size' L - (size' L - size' L div 2))"
      using that by (simp add: CopyHalfFrom_loop_apply)
    also have "i + size' L - (size' L - size' L div 2) = size' L div 2 + i"
      by simp
    finally show ?thesis .
  qed
  have parity: "size' L - size' L div 2 = size' L div 2 + size' L mod 2"
    by presburger
  show ?thesis
    using recipient_slots by (simp add: sender recipient_size parity)
qed

theorem LeafPage_MoveHalfTo_split_witness:
  "0 \<le> size' example_leaf \<and>
   size' (fst (LeafPage_MoveHalfTo example_leaf example_recipient)) = 1 \<and>
   size' (snd (LeafPage_MoveHalfTo example_leaf example_recipient)) = 2 \<and>
   leaf_array (fst (LeafPage_MoveHalfTo example_leaf example_recipient)) 0 = (10, 100) \<and>
   leaf_array (snd (LeafPage_MoveHalfTo example_leaf example_recipient)) 0 = (20, 200) \<and>
   leaf_array (snd (LeafPage_MoveHalfTo example_leaf example_recipient)) 1 = (30, 300)"
proof -
  have h: "0 \<le> size' example_leaf" by (simp add: example_leaf_def)
  have s: "size' example_leaf = 3" by (simp add: example_leaf_def)
  note split = LeafPage_MoveHalfTo_split [OF h, of example_recipient, unfolded s]
  from split have sizes:
    "size' (fst (LeafPage_MoveHalfTo example_leaf example_recipient)) = 1"
    "size' (snd (LeafPage_MoveHalfTo example_leaf example_recipient)) = 2"
    by simp_all
  from split have lower: "\<forall>i. 0 \<le> i \<and> i < 3 div 2 \<longrightarrow>
      leaf_array (fst (LeafPage_MoveHalfTo example_leaf example_recipient)) i =
      leaf_array example_leaf i"
    by blast
  from split have upper: "\<forall>i. 0 \<le> i \<and> i < 3 - 3 div 2 \<longrightarrow>
      leaf_array (snd (LeafPage_MoveHalfTo example_leaf example_recipient)) i =
      leaf_array example_leaf (3 div 2 + i)"
    by blast
  from lower [rule_format, of 0] upper [rule_format, of 0] upper [rule_format, of 1]
  have "leaf_array (fst (LeafPage_MoveHalfTo example_leaf example_recipient)) 0 = (10, 100)"
    "leaf_array (snd (LeafPage_MoveHalfTo example_leaf example_recipient)) 0 = (20, 200)"
    "leaf_array (snd (LeafPage_MoveHalfTo example_leaf example_recipient)) 1 = (30, 300)"
    by (simp_all add: example_leaf_def)
  with h sizes show ?thesis by simp
qed

text \<open>
  Claim C4 as stated fails for an odd size: the example leaf has 3 slots, the claim
  leaves \<open>\<lceil>3/2\<rceil> = 2\<close> of them in the sender and 1 in the recipient, and the code leaves
  1 in the sender and 2 in the recipient.
\<close>

theorem LeafPage_MoveHalfTo_odd_counterexample:
  "size' example_leaf = 3 \<and>
   size' (fst (LeafPage_MoveHalfTo example_leaf example_recipient)) \<noteq> (3 + 1) div 2 \<and>
   size' (snd (LeafPage_MoveHalfTo example_leaf example_recipient)) \<noteq> 3 - (3 + 1) div 2 \<and>
   size' (fst (LeafPage_MoveHalfTo example_leaf example_recipient)) <
     size' (snd (LeafPage_MoveHalfTo example_leaf example_recipient))"
  by (simp add: example_leaf_def example_recipient_def LeafPage_MoveHalfTo_def
      LeafPage_CopyHalfFrom_def Let_def signed_divide_int_def)

subsection \<open>Leaf \<open>SetNextPageId\<close> and \<open>Init\<close>\<close>

text \<open>The setter leaves the link field as it was, for every page and argument.\<close>

lemma SetNextPageId_noop: "GetNextPageId (SetNextPageId p next_id) = GetNextPageId p"
  by (simp add: GetNextPageId_def SetNextPageId_def)

text \<open>
  Claim C6 at a failing input: on a new, zero-filled page the link field holds 0.
  \<open>SetNextPageId(5)\<close> leaves it at 0, where the claim says 5, and \<open>Init\<close> leaves it at
  0, where the claim says \<open>INVALID_PAGE_ID\<close>.
\<close>

theorem SetNextPageId_ignores_argument:
  "GetNextPageId (SetNextPageId (blank_leaf :: (int, int) BPlusTreeLeafPage) 5) = 0 \<and>
   GetNextPageId (LeafPage_Init c (blank_leaf :: (int, int) BPlusTreeLeafPage) 1 INVALID_PAGE_ID) = 0 \<and>
   INVALID_PAGE_ID \<noteq> 0"
  by (simp add: GetNextPageId_def SetNextPageId_def LeafPage_Init_def blank_leaf_def
      INVALID_PAGE_ID_def Let_def)

subsection \<open>Internal \<open>Lookup\<close>\<close>

lemma Lookup_while_char:
  "i \<le> size' p \<Longrightarrow>
   i \<le> Lookup_while p key cmp i \<and> Lookup_while p key cmp i \<le> size' p \<and>
   (\<forall>j. i \<le> j \<and> j < Lookup_while p key cmp i \<longrightarrow> 0 < cmp key (KeyAt p j)) \<and>
   (Lookup_while p key cmp i < size' p \<longrightarrow> cmp key (KeyAt p (Lookup_while p key cmp i)) \<le> 0)"
proof (induction p key cmp i rule: Lookup_while.induct)
  case (1 p key cmp i)
  show ?case
  proof (cases "i < size' p \<and> 0 < cmp key (KeyAt p i)")
    case False
    then have "Lookup_while p key cmp i = i"
      by (auto simp: Lookup_while.simps [of p key cmp i])
    with False "1.prems" show ?thesis by auto
  next
    case True
    then have step: "Lookup_while p key cmp i = Lookup_while p key cmp (i + 1)"
      by (simp add: Lookup_while.simps [of p key cmp i])
    from True have "i + 1 \<le> size' p" by simp
    from "1.IH" [OF True this] have ih:
      "i + 1 \<le> Lookup_while p key cmp (i + 1)"
      "Lookup_while p key cmp (i + 1) \<le> size' p"
      "\<forall>j. i + 1 \<le> j \<and> j < Lookup_while p key cmp (i + 1) \<longrightarrow> 0 < cmp key (KeyAt p j)"
      "Lookup_while p key cmp (i + 1) < size' p \<longrightarrow>
         cmp key (KeyAt p (Lookup_while p key cmp (i + 1))) \<le> 0"
      by simp_all
    have "\<forall>j. i \<le> j \<and> j < Lookup_while p key cmp (i + 1) \<longrightarrow> 0 < cmp key (KeyAt p j)"
    proof (intro allI impI)
      fix j assume j: "i \<le> j \<and> j < Lookup_while p key cmp (i + 1)"
      show "0 < cmp key (KeyAt p j)"
      proof (cases "j = i")
        case True with \<open>i < size' p \<and> 0 < cmp key (KeyAt p i)\<close> show ?thesis by simp
      next
        case False with j have "i + 1 \<le> j" by simp
        with j ih(3) show ?thesis by simp
      qed
    qed
    with ih step show ?thesis by simp
  qed
qed

text \<open>
  Claim C8. For every internal page that has its slot 0 (size at least 1) and whose
  keys at slots \<open>1..size-1\<close> are strictly ascending, for every comparator that keeps
  its contract and every search key, \<open>Lookup\<close> returns the child at slot \<open>i - 1\<close> for
  the smallest \<open>i\<close> in \<open>[1, size)\<close> with \<open>key < key_i\<close>, and the child at slot
  \<open>size - 1\<close> when there is no such \<open>i\<close>; so a key equal to the separator of slot \<open>i\<close>
  descends into the child at slot \<open>i\<close>.
\<close>

theorem InternalPage_Lookup_routing:
  fixes p :: "'k::linorder BPlusTreeInternalPage"
  assumes contract: "comparator_contract cmp"
    and nonempty: "1 \<le> size' p"
    and ascending: "\<forall>i j. 1 \<le> i \<and> i < j \<and> j < size' p \<longrightarrow> KeyAt p i < KeyAt p j"
  shows "((\<exists>i. 1 \<le> i \<and> i < size' p \<and> key < KeyAt p i \<and>
              (\<forall>j. 1 \<le> j \<and> j < i \<longrightarrow> \<not> key < KeyAt p j) \<and>
              InternalPage_Lookup p key cmp = ValueAt p (i - 1)) \<or>
          ((\<forall>i. 1 \<le> i \<and> i < size' p \<longrightarrow> \<not> key < KeyAt p i) \<and>
           InternalPage_Lookup p key cmp = ValueAt p (size' p - 1))) \<and>
         (\<forall>i. 1 \<le> i \<and> i < size' p \<and> key = KeyAt p i \<longrightarrow>
              InternalPage_Lookup p key cmp = ValueAt p i)"
proof -
  define r where "r = Lookup_while p key cmp 1"
  from Lookup_while_char [OF nonempty, of key cmp] have r:
    "1 \<le> r" "r \<le> size' p"
    "\<forall>j. 1 \<le> j \<and> j < r \<longrightarrow> 0 < cmp key (KeyAt p j)"
    "r < size' p \<longrightarrow> cmp key (KeyAt p r) \<le> 0"
    by (simp_all add: r_def)
  have pos: "\<And>a b. 0 < cmp a b \<longleftrightarrow> b < a" and neg: "\<And>a b. cmp a b < 0 \<longleftrightarrow> a < b"
    and zero: "\<And>a b. cmp a b = 0 \<longleftrightarrow> a = b"
    using contract by (simp_all add: comparator_contract_def)
  have before: "\<And>j. 1 \<le> j \<Longrightarrow> j < r \<Longrightarrow> KeyAt p j < key"
    using r(3) pos by blast
  have lookup: "InternalPage_Lookup p key cmp =
      (if r = size' p then ValueAt p (size' p - 1)
       else if key < KeyAt p r then ValueAt p (r - 1) else ValueAt p r)"
    by (simp add: InternalPage_Lookup_def r_def [symmetric] neg)
  consider (last) "r = size' p" | (less) "r < size' p" "key < KeyAt p r"
    | (equal) "r < size' p" "key = KeyAt p r"
    using r(2,4) pos [of key "KeyAt p r"] by (metis le_less not_less linorder_cases)
  then have first: "(\<exists>i. 1 \<le> i \<and> i < size' p \<and> key < KeyAt p i \<and>
              (\<forall>j. 1 \<le> j \<and> j < i \<longrightarrow> \<not> key < KeyAt p j) \<and>
              InternalPage_Lookup p key cmp = ValueAt p (i - 1)) \<or>
          ((\<forall>i. 1 \<le> i \<and> i < size' p \<longrightarrow> \<not> key < KeyAt p i) \<and>
           InternalPage_Lookup p key cmp = ValueAt p (size' p - 1))"
  proof cases
    case last
    have "\<forall>i. 1 \<le> i \<and> i < size' p \<longrightarrow> \<not> key < KeyAt p i"
      using before last by (metis less_asym)
    with last lookup show ?thesis by simp
  next
    case less
    have "\<forall>j. 1 \<le> j \<and> j < r \<longrightarrow> \<not> key < KeyAt p j"
      using before by (metis less_asym)
    with less r(1) lookup show ?thesis
      by (intro disjI1 exI [of _ r]) simp
  next
    case equal
    show ?thesis
    proof (cases "r + 1 < size' p")
      case True
      have next_greater: "key < KeyAt p (r + 1)"
        using ascending r(1) True equal(2) by simp
      have "\<forall>j. 1 \<le> j \<and> j < r + 1 \<longrightarrow> \<not> key < KeyAt p j"
      proof (intro allI impI)
        fix j assume j: "1 \<le> j \<and> j < r + 1"
        show "\<not> key < KeyAt p j"
        proof (cases "j = r")
          case True with equal(2) show ?thesis by simp
        next
          case False with j have "j < r" by simp
          with j before show ?thesis by (metis less_asym)
        qed
      qed
      with True next_greater r(1) equal lookup show ?thesis
        by (intro disjI1 exI [of _ "r + 1"]) simp
    next
      case False
      with equal(1) have r_last: "r = size' p - 1" by simp
      have "\<forall>i. 1 \<le> i \<and> i < size' p \<longrightarrow> \<not> key < KeyAt p i"
      proof (intro allI impI)
        fix j assume j: "1 \<le> j \<and> j < size' p"
        show "\<not> key < KeyAt p j"
        proof (cases "j = r")
          case True with equal(2) show ?thesis by simp
        next
          case False with j r_last have "j < r" by simp
          with j before show ?thesis by (metis less_asym)
        qed
      qed
      with equal r_last lookup show ?thesis by simp
    qed
  qed
  have second: "\<forall>i. 1 \<le> i \<and> i < size' p \<and> key = KeyAt p i \<longrightarrow>
              InternalPage_Lookup p key cmp = ValueAt p i"
  proof (intro allI impI)
    fix i assume i: "1 \<le> i \<and> i < size' p \<and> key = KeyAt p i"
    have "\<not> i < r" using before [of i] i by auto
    moreover have "\<not> r < i"
    proof
      assume "r < i"
      with i r(1) ascending have "KeyAt p r < KeyAt p i" by simp
      moreover from \<open>r < i\<close> i r(4) have "cmp key (KeyAt p r) \<le> 0" by simp
      then have "key \<le> KeyAt p r" using pos [of key "KeyAt p r"] by (simp add: not_less)
      ultimately show False using i by simp
    qed
    ultimately have "r = i" by simp
    with i lookup show "InternalPage_Lookup p key cmp = ValueAt p i" by simp
  qed
  from first second show ?thesis by blast
qed

theorem InternalPage_Lookup_routing_witness:
  "comparator_contract GenericComparator \<and> size' example_internal = 3 \<and>
   KeyAt example_internal 1 < KeyAt example_internal 2 \<and>
   InternalPage_Lookup example_internal 20 GenericComparator = 2 \<and>
   InternalPage_Lookup example_internal 40 GenericComparator = 3"
proof -
  have c: "comparator_contract GenericComparator" by (rule GenericComparator_contract)
  have n: "1 \<le> size' example_internal" by (simp add: example_internal_def)
  have a: "\<forall>i j. 1 \<le> i \<and> i < j \<and> j < size' example_internal \<longrightarrow>
      KeyAt example_internal i < KeyAt example_internal j"
  proof (intro allI impI)
    fix i j :: int
    assume "1 \<le> i \<and> i < j \<and> j < size' example_internal"
    then have "i = 1 \<and> j = 2" by (simp add: example_internal_def)
    then show "KeyAt example_internal i < KeyAt example_internal j"
      by (simp add: example_internal_def KeyAt_def)
  qed
  have at_separator: "\<forall>i. 1 \<le> i \<and> i < size' example_internal \<and> key = KeyAt example_internal i \<longrightarrow>
      InternalPage_Lookup example_internal key GenericComparator = ValueAt example_internal i" for key
    using InternalPage_Lookup_routing [OF c n a, of key] by blast
  from at_separator [of 20, rule_format, of 1] at_separator [of 40, rule_format, of 2]
  have "InternalPage_Lookup example_internal 20 GenericComparator = 2"
    "InternalPage_Lookup example_internal 40 GenericComparator = 3"
    by (simp_all add: example_internal_def KeyAt_def ValueAt_def)
  moreover have "size' example_internal = 3" "KeyAt example_internal 1 < KeyAt example_internal 2"
    by (simp_all add: example_internal_def KeyAt_def)
  ultimately show ?thesis using c by simp
qed

subsection \<open>Internal \<open>PopulateNewRoot\<close>\<close>

text \<open>
  Claim C7 at a failing input: on the new page that \<open>InsertIntoParent\<close> hands over,
  \<open>PopulateNewRoot(1, 30, 2)\<close> fills slot 0 and slot 1 as the claim says and leaves the
  size at 0, where the claim says 2.
\<close>

theorem PopulateNewRoot_leaves_size:
  "ValueAt (PopulateNewRoot (blank_internal :: int BPlusTreeInternalPage) 1 30 2) 0 = 1 \<and>
   KeyAt (PopulateNewRoot (blank_internal :: int BPlusTreeInternalPage) 1 30 2) 1 = 30 \<and>
   ValueAt (PopulateNewRoot (blank_internal :: int BPlusTreeInternalPage) 1 30 2) 1 = 2 \<and>
   size' (PopulateNewRoot (blank_internal :: int BPlusTreeInternalPage) 1 30 2) = 0"
  by (simp add: PopulateNewRoot_def ValueAt_def KeyAt_def blank_internal_def Let_def)

subsection \<open>Transaction\<close>

text \<open>
  Claim C10. For every freshly constructed \<open>Transaction\<close>, \<open>GetPageSet()\<close> returns the
  null shared pointer: dereferencing it, and inserting a page through it, is a
  null-pointer fault.
\<close>

theorem Transaction_page_set_null:
  "GetPageSet (Transaction tid xid) = None \<and>
   shared_ptr_deref (GetPageSet (Transaction tid xid)) = Inl NullPointerFault \<and>
   page_set_insert (Transaction tid xid) pid pg = Inl NullPointerFault"
  by (simp add: Transaction_def GetPageSet_def shared_ptr_deref_def page_set_insert_def)

section \<open>Properties of the tree operations\<close>

text \<open>
  The equations that evaluate a lookup or an insertion on a given tree. The two
  descents are partial functions; on the trees below they return, and the theorems
  state the value they return.
\<close>

lemmas tree_eval =
  Insert_def InsertIntoLeaf_def InsertToLeaf_def StartNewTree_def NewPage_def write_page_def
  InsertIntoLeaf_while.simps GetValue_def GetValueHelper.simps GetValueHelper_for.simps
  FetchPage_def IsLeafPage_def as_tree_page_def as_leaf_def as_internal_def
  BPlusTreePage.truncate_def LeafPage_Lookup_def LeafPage_Lookup_from.simps
  LeafPage_Insert_def Insert_scan.simps shift_right.simps GetItem_def KeyAt_def ValueAt_def
  GenericComparator_def INVALID_PAGE_ID_def Let_def split_beta

text \<open>Whatever the tree and the key, \<open>Insert\<close> does not return \<open>false\<close>.\<close>

lemma Insert_never_false: "Insert d t key value \<noteq> Some (Inr (False, t1))"
  by (simp add: Insert_def split: option.splits sum.splits prod.splits)

text \<open>
  Claim C1 at a failing input: the tree is a root leaf that holds key 7 with value 70.
  \<open>Insert(7, 71)\<close> leaves the tree as it is and returns \<open>true\<close>, where the claim says
  \<open>false\<close>: \<open>Insert\<close> drops the result of \<open>InsertIntoLeaf\<close>.
\<close>

theorem Insert_duplicate_returns_true:
  "GetValue one_leaf_tree 7 [] = Some (Inr (True, [70])) \<and>
   InsertIntoLeaf d one_leaf_tree 7 71 = Some (Inr (False, one_leaf_tree)) \<and>
   Insert d one_leaf_tree 7 71 = Some (Inr (True, one_leaf_tree))"
  by (simp add: one_leaf_tree_def tree_eval)

text \<open>
  Claim C2 at a failing input: in the same tree, after \<open>Remove(7)\<close> the lookup of key 7
  still returns \<open>true\<close> and appends 70, where the claim says \<open>false\<close> and nothing
  appended.
\<close>

theorem Remove_keeps_key:
  "GetValue one_leaf_tree 7 [] = Some (Inr (True, [70])) \<and>
   GetValue (Remove one_leaf_tree 7) 7 [] = Some (Inr (True, [70]))"
  by (simp add: one_leaf_tree_def Remove_def tree_eval)

text \<open>
  Claim C3 at a failing input: the tree has an internal root with separator 30 over
  the leaves \<open>{10, 20}\<close> and \<open>{30, 40}\<close>, and key 5 is not in it. \<open>Insert(5, 50)\<close>
  returns \<open>true\<close>, and the lookup of key 5 in the resulting tree returns \<open>false\<close> and
  appends nothing, where the claim says \<open>true\<close> and 50: the insertion descends to the
  last child, the lookup to the first. This holds whatever \<open>int_eq_key\<close> is.
\<close>

theorem Insert_then_GetValue_misses:
  "GetValue two_leaf_tree 5 [] = Some (Inr (False, [])) \<and>
   (case Insert d two_leaf_tree 5 50 of
      Some (Inr (ok, t1)) \<Rightarrow> ok \<and> GetValue t1 5 [] = Some (Inr (False, []))
    | _ \<Rightarrow> False)"
  by (simp add: two_leaf_tree_def tree_eval split: option.splits)

text \<open>
  Claim C5 at a failing input: the empty tree, no record in the header page.
  \<open>Insert(7, 70)\<close> returns \<open>true\<close> and makes page 1 the root, and the header page still
  has no record for the index, where the claim says it records page 1.
\<close>

theorem Insert_new_root_not_persisted:
  "case Insert d empty_tree 7 70 of
     Some (Inr (ok, t1)) \<Rightarrow>
       ok \<and> root_page_id t1 = 1 \<and>
       GetRootId (header_page (buffer_pool_manager t1)) (index_name t1) = None \<and>
       GetRootId (header_page (buffer_pool_manager t1)) (index_name t1) \<noteq> Some (root_page_id t1)
   | _ \<Rightarrow> False"
  by (simp add: empty_tree_def GetRootId_def tree_eval)

end
